theory Spec2Isabelle
  imports Main "HOL-Library.Char_ord" "HOL-Library.List_Lexorder"
begin

section \<open>ammonite: the SimpleUpgrader of src/ammonite/SimpleUpgrader.py\<close>

text \<open>
  The module is Python 2 (\<^verbatim>\<open>xrange\<close>): \<^verbatim>\<open>open\<close> raises \<^verbatim>\<open>IOError\<close>,
  \<^verbatim>\<open>os.listdir\<close> raises \<^verbatim>\<open>OSError\<close>, and the two are different classes; strings
  are byte strings, compared bytewise. Console output (\<^verbatim>\<open>print\<close>) is not modelled.
\<close>

subsection \<open>Exceptions\<close>

datatype py_error =
    IOError nat          \<comment> \<open>raised by \<^verbatim>\<open>open\<close>, with its errno\<close>
  | OSError nat          \<comment> \<open>raised by \<^verbatim>\<open>os.listdir\<close>, with its errno\<close>
  | ValueError           \<comment> \<open>raised by \<^verbatim>\<open>int\<close> and by \<^verbatim>\<open>str.format\<close>\<close>
  | DatabaseError string \<comment> \<open>raised by \<^verbatim>\<open>cursor.execute\<close>\<close>
  | Exception string     \<comment> \<open>\<^verbatim>\<open>raise Exception(msg)\<close> in the module itself\<close>

subsection \<open>Python string primitives used by the module\<close>

definition is_space :: "char \<Rightarrow> bool" where
  "is_space c = (c \<in> set [CHR 0x20, CHR 0x09, CHR 0x0A, CHR 0x0B, CHR 0x0C, CHR 0x0D])"

definition rstrip :: "string \<Rightarrow> string" where
  "rstrip s = rev (dropWhile is_space (rev s))"

definition strip :: "string \<Rightarrow> string" where
  "strip s = rstrip (dropWhile is_space s)"

definition is_digit :: "char \<Rightarrow> bool" where
  "is_digit c = (c \<in> set ''0123456789'')"

definition digit_val :: "char \<Rightarrow> nat" where
  "digit_val c = of_char c - 48"

definition digits_val :: "string \<Rightarrow> nat" where
  "digits_val ds = foldl (\<lambda>a c. 10 * a + digit_val c) 0 ds"

text \<open>\<^verbatim>\<open>int(s)\<close> on a byte string, base 10: surrounding whitespace, one optional sign,
  at least one digit, nothing else; otherwise \<^verbatim>\<open>ValueError\<close>.\<close>

definition py_int :: "string \<Rightarrow> py_error + int" where
  "py_int s =
     (case strip s of
        [] \<Rightarrow> Inl ValueError
      | c # r \<Rightarrow>
          (let neg = (c = CHR ''-'');
               ds = (if c = CHR ''-'' \<or> c = CHR ''+'' then r else c # r)
           in if ds \<noteq> [] \<and> list_all is_digit ds
              then Inr (if neg then - int (digits_val ds) else int (digits_val ds))
              else Inl ValueError))"

fun nat_digits :: "nat \<Rightarrow> string" where
  "nat_digits n =
     (if n < 10 then [char_of (48 + n)]
      else nat_digits (n div 10) @ [char_of (48 + n mod 10)])"

text \<open>\<^verbatim>\<open>str(n)\<close> and \<^verbatim>\<open>'%d' % n\<close> for an integer.\<close>

definition py_str :: "int \<Rightarrow> string" where
  "py_str n = (if n < 0 then CHR ''-'' # nat_digits (nat (- n)) else nat_digits (nat n))"

text \<open>\<^verbatim>\<open>s.split(sep)\<close> for a one-character separator.\<close>

fun str_split :: "char \<Rightarrow> string \<Rightarrow> string list" where
  "str_split sep [] = [[]]"
| "str_split sep (x # xs) =
     (if x = sep then [] # str_split sep xs
      else (case str_split sep xs of [] \<Rightarrow> [[x]] | p # ps \<Rightarrow> (x # p) # ps))"

text \<open>\<^verbatim>\<open>s.rfind(ch)\<close>: the index of the last occurrence, or \<open>-1\<close>.\<close>

definition rfind :: "string \<Rightarrow> char \<Rightarrow> int" where
  "rfind s ch =
     (if ch \<in> set s then int (length s) - 1 - int (length (takeWhile (\<lambda>c. c \<noteq> ch) (rev s)))
      else - 1)"

text \<open>The slice \<^verbatim>\<open>s[:i]\<close>; a negative \<open>i\<close> counts from the end.\<close>

definition slice_to :: "string \<Rightarrow> int \<Rightarrow> string" where
  "slice_to s i = (if i < 0 then take (nat (int (length s) + i)) s else take (nat i) s)"

text \<open>Iterating over an open text file yields its lines, each with its newline.\<close>

fun file_lines :: "string \<Rightarrow> string list" where
  "file_lines [] = []"
| "file_lines (x # xs) =
     (if x = CHR 0x0A then [x] # file_lines xs
      else (case file_lines xs of [] \<Rightarrow> [[x]] | l # ls \<Rightarrow> (x # l) # ls))"

text \<open>\<^verbatim>\<open>os.path.join(a, b)\<close> of posixpath.\<close>

definition path_join :: "string \<Rightarrow> string \<Rightarrow> string" where
  "path_join a b =
     (if b \<noteq> [] \<and> hd b = CHR ''/'' then b
      else if a = [] \<or> last a = CHR ''/'' then a @ b
      else a @ ''/'' @ b)"

text \<open>\<^verbatim>\<open>template.format(arg)\<close> for the templates the module ships: literal text,
  the doubled braces \<^verbatim>\<open>{{\<close> and \<^verbatim>\<open>}}\<close>, and the field \<^verbatim>\<open>{0}\<close>. Every other use of a
  brace (automatic numbering, conversions, format specifications) is outside this fragment;
  the model answers \<^verbatim>\<open>ValueError\<close> there, and nothing below relies on that answer.\<close>

fun format0 :: "string \<Rightarrow> string \<Rightarrow> py_error + string" where
  "format0 [] arg = Inr []"
| "format0 (c # cs) arg =
     (if c = CHR ''{'' then
        (case cs of
           d # e # rest \<Rightarrow>
             (if d = CHR ''{'' then map_sum id ((#) CHR ''{'') (format0 (e # rest) arg)
              else if d = CHR ''0'' \<and> e = CHR ''}'' then map_sum id ((@) arg) (format0 rest arg)
              else Inl ValueError)
         | [d] \<Rightarrow> (if d = CHR ''{'' then Inr ''{'' else Inl ValueError)
         | [] \<Rightarrow> Inl ValueError)
      else if c = CHR ''}'' then
        (case cs of
           d # rest \<Rightarrow>
             (if d = CHR ''}'' then map_sum id ((#) CHR ''}'') (format0 rest arg)
              else Inl ValueError)
         | [] \<Rightarrow> Inl ValueError)
      else map_sum id ((#) c) (format0 cs arg))"

subsection \<open>The script store\<close>

text \<open>
  The file system is read through \<^verbatim>\<open>open\<close> and \<^verbatim>\<open>os.listdir\<close> only. A path names a
  regular file with its contents, a directory with its entries in the order
  \<^verbatim>\<open>os.listdir\<close> reports them (which the operating system chooses), or an object
  that cannot be accessed, with the errno the attempt gives (13 is \<^verbatim>\<open>EACCES\<close>).
  Paths are the strings the module builds; they are not normalised.
\<close>

datatype node = File string | Dir "string list" | Broken nat

type_synonym filesystem = "string \<Rightarrow> node option"

text \<open>\<^verbatim>\<open>with open(path) as f: f.read()\<close>; errno 2 is \<^verbatim>\<open>ENOENT\<close>, 21 is \<^verbatim>\<open>EISDIR\<close>.\<close>

definition open_read :: "filesystem \<Rightarrow> string \<Rightarrow> py_error + string" where
  "open_read fs path =
     (case fs path of
        None \<Rightarrow> Inl (IOError 2)
      | Some (File s) \<Rightarrow> Inr s
      | Some (Dir _) \<Rightarrow> Inl (IOError 21)
      | Some (Broken n) \<Rightarrow> Inl (IOError n))"

text \<open>\<^verbatim>\<open>os.listdir(path)\<close>; errno 20 is \<^verbatim>\<open>ENOTDIR\<close>.\<close>

definition listdir :: "filesystem \<Rightarrow> string \<Rightarrow> py_error + string list" where
  "listdir fs path =
     (case fs path of
        None \<Rightarrow> Inl (OSError 2)
      | Some (Dir names) \<Rightarrow> Inr names
      | Some (File _) \<Rightarrow> Inl (OSError 20)
      | Some (Broken n) \<Rightarrow> Inl (OSError n))"

subsection \<open>Module constants and the upgrader object\<close>

definition FILE_MANIFEST :: string where
  "FILE_MANIFEST = ''_manifest''"

definition SCRIPT_EXT :: string where
  "SCRIPT_EXT = ''.sql''"

definition TABLE_NAME :: string where
  "TABLE_NAME = ''schema_changelog''"

definition mysql_structure :: string where
  "mysql_structure =
     [CHR 0x0A] @ ''CREATE TABLE `{0}` ('' @
     [CHR 0x0A] @ ''  `id` int(11) unsigned NOT NULL,'' @
     [CHR 0x0A] @ ''  `applied` timestamp NOT NULL DEFAULT CURRENT_TIMESTAMP,'' @
     [CHR 0x0A] @ ''  PRIMARY KEY (`id`)'' @
     [CHR 0x0A] @ '') ENGINE=InnoDB DEFAULT CHARSET=utf8;'' @
     [CHR 0x0A]"

definition sqlite3_structure :: string where
  "sqlite3_structure =
     [CHR 0x0A] @ ''CREATE TABLE {0} ('' @
     [CHR 0x0A] @ ''    id int,'' @
     [CHR 0x0A] @ ''    applied text default datetime'' @
     [CHR 0x0A] @ '')''"

definition TABLE_STRUCTURE :: "(string \<times> string) list" where
  "TABLE_STRUCTURE = [(''mysql'', mysql_structure), (''sqlite3'', sqlite3_structure)]"

text \<open>The fields of a \<^verbatim>\<open>SimpleUpgrader\<close> that are not the database handle.\<close>

record upgrader =
  directory :: string
  table :: "string \<times> string"

definition for_engine :: "string \<Rightarrow> string \<Rightarrow> string \<Rightarrow> py_error + upgrader" where
  "for_engine db_type upgrades_path table_name =
     (case map_of TABLE_STRUCTURE db_type of
        Some structure \<Rightarrow>
          Inr \<lparr>directory = upgrades_path, table = (table_name, structure)\<rparr>
      | None \<Rightarrow> Inl (Exception (''unknown database requested '' @ db_type)))"

definition get_table :: "upgrader \<Rightarrow> string" where
  "get_table u = fst (table u)"

subsection \<open>Discovering versions\<close>

definition get_available_upgrades :: "filesystem \<Rightarrow> upgrader \<Rightarrow> py_error + string list" where
  "get_available_upgrades fs u = map_sum id sort (listdir fs (directory u))"

definition get_latest_upgrade_version :: "filesystem \<Rightarrow> upgrader \<Rightarrow> py_error + int" where
  "get_latest_upgrade_version fs u =
     (case get_available_upgrades fs u of
        Inl e \<Rightarrow> Inl e
      | Inr versions \<Rightarrow> (if length versions > 0 then py_int (last versions) else Inr 0))"

subsection \<open>Loading the scripts of one version\<close>

definition load_upgrade_script :: "filesystem \<Rightarrow> string \<Rightarrow> string \<Rightarrow> py_error + string" where
  "load_upgrade_script fs script_path script_name =
     open_read fs (path_join script_path (script_name @ SCRIPT_EXT))"

fun load_upgrade_components ::
  "filesystem \<Rightarrow> string \<Rightarrow> string list \<Rightarrow> py_error + (string \<times> string) list" where
  "load_upgrade_components fs upgrade_path [] = Inr []"
| "load_upgrade_components fs upgrade_path (line # manifest) =
     (let script_name = rstrip line in
      case load_upgrade_script fs upgrade_path script_name of
        Inl e \<Rightarrow> Inl e
      | Inr sql \<Rightarrow>
          (case load_upgrade_components fs upgrade_path manifest of
             Inl e \<Rightarrow> Inl e
           | Inr components \<Rightarrow> Inr ((script_name, sql) # components)))"

definition script_prefix :: "string \<Rightarrow> py_error + bool" where
  "script_prefix filename =
     (let fileparts = str_split CHR ''-'' filename in
      if length fileparts > 1 then
        (case py_int (hd fileparts) of
           Inr n \<Rightarrow> Inr (n > 0)
         | Inl _ \<Rightarrow> Inl (Exception ''invalid prefix''))
      else Inl (Exception ''invalid prefix''))"

definition scripts_from_manifestfile ::
  "filesystem \<Rightarrow> string \<Rightarrow> py_error + (string \<times> string) list" where
  "scripts_from_manifestfile fs version_dir =
     (case open_read fs (path_join version_dir FILE_MANIFEST) of
        Inl e \<Rightarrow> Inl e
      | Inr manifest \<Rightarrow> load_upgrade_components fs version_dir (file_lines manifest))"

text \<open>\<^verbatim>\<open>scripts.sort(key=f)\<close> calls \<open>f\<close> on every entry, in list order, before it compares
  anything; the first exception ends the sort.\<close>

fun sort_keys :: "('a \<Rightarrow> py_error + 'k) \<Rightarrow> 'a list \<Rightarrow> py_error + ('k \<times> 'a) list" where
  "sort_keys f [] = Inr []"
| "sort_keys f (x # xs) =
     (case f x of
        Inl e \<Rightarrow> Inl e
      | Inr k \<Rightarrow> (case sort_keys f xs of Inl e \<Rightarrow> Inl e | Inr ks \<Rightarrow> Inr ((k, x) # ks)))"

definition scripts_from_upgradedir ::
  "filesystem \<Rightarrow> string \<Rightarrow> py_error + (string \<times> string) list" where
  "scripts_from_upgradedir fs version_dir =
     (case listdir fs version_dir of
        Inl e \<Rightarrow> Inl e
      | Inr scripts \<Rightarrow>
          (case sort_keys script_prefix scripts of
             Inl e \<Rightarrow> Inl e
           | Inr keyed \<Rightarrow>
               load_upgrade_components fs version_dir
                 (map (\<lambda>x. slice_to x (rfind x CHR ''.'')) (map snd (sort_key fst keyed)))))"

definition load_upgrade :: "filesystem \<Rightarrow> upgrader \<Rightarrow> int \<Rightarrow> py_error + (string \<times> string) list" where
  "load_upgrade fs u version =
     (let version_dir = path_join (directory u) (py_str version) in
      case scripts_from_manifestfile fs version_dir of
        Inl (IOError errno) \<Rightarrow>
          (if errno = 2 then scripts_from_upgradedir fs version_dir
           else Inl (Exception ''missing manifest file''))
      | r \<Rightarrow> r)"

subsection \<open>The database handle\<close>

text \<open>
  The connection and its cursor are collaborators the module is handed. The model is a
  transactional handle: \<open>working\<close> is the data as the open transaction sees it,
  \<open>committed\<close> the data as of the last commit; \<^verbatim>\<open>commit\<close> makes the working data the
  committed data and \<^verbatim>\<open>rollback\<close> restores it. What a statement does is the engine's
  business: an engine maps the SQL text and the working data to an error (with the data the
  failed attempt leaves) or to the new data, the first column of the first result row (what
  \<^verbatim>\<open>fetchone()[0]\<close> reads: \<^verbatim>\<open>None\<close> or an integer) and the row count. Statements that
  commit implicitly are outside the model. \<open>calls\<close> records every call the module makes
  on the handle, in order.
\<close>

type_synonym 'd engine = "string \<Rightarrow> 'd \<Rightarrow> (string \<times> 'd) + ('d \<times> int option \<times> int)"

datatype call = Execute string | Commit | Rollback

record 'd connection =
  committed :: 'd
  working :: 'd
  fetched :: "int option"
  rowcount :: int
  calls :: "call list"

definition execute :: "'d engine \<Rightarrow> string \<Rightarrow> 'd connection \<Rightarrow> (py_error + unit) \<times> 'd connection" where
  "execute eng query c =
     (case eng query (working c) of
        Inl (msg, d) \<Rightarrow>
          (Inl (DatabaseError msg), c\<lparr>working := d, calls := calls c @ [Execute query]\<rparr>)
      | Inr (d, r, n) \<Rightarrow>
          (Inr (), c\<lparr>working := d, fetched := r, rowcount := n,
                      calls := calls c @ [Execute query]\<rparr>))"

definition commit :: "'d connection \<Rightarrow> 'd connection" where
  "commit c = c\<lparr>committed := working c, calls := calls c @ [Commit]\<rparr>"

definition rollback :: "'d connection \<Rightarrow> 'd connection" where
  "rollback c = c\<lparr>working := committed c, calls := calls c @ [Rollback]\<rparr>"

subsection \<open>Statements of the upgrader\<close>

fun apply_upgrade ::
  "'d engine \<Rightarrow> (string \<times> string) list \<Rightarrow> 'd connection \<Rightarrow> (py_error + unit) \<times> 'd connection" where
  "apply_upgrade eng [] c = (Inr (), c)"
| "apply_upgrade eng (upgrade_tuple # upgrades) c =
     (case execute eng (snd upgrade_tuple) c of
        (Inl e, c') \<Rightarrow> (Inl e, c')
      | (Inr _, c') \<Rightarrow> apply_upgrade eng upgrades c')"

definition version_record_query :: "upgrader \<Rightarrow> int \<Rightarrow> string" where
  "version_record_query u version =
     ''INSERT INTO '' @ get_table u @ '' (id) VALUES ('' @ py_str version @ '')''"

definition create_version_record ::
  "'d engine \<Rightarrow> upgrader \<Rightarrow> int \<Rightarrow> 'd connection \<Rightarrow> (py_error + unit) \<times> 'd connection" where
  "create_version_record eng u version c = execute eng (version_record_query u version) c"

definition create_version_table ::
  "'d engine \<Rightarrow> upgrader \<Rightarrow> 'd connection \<Rightarrow> (py_error + unit) \<times> 'd connection" where
  "create_version_table eng u c =
     (case format0 (snd (table u)) (fst (table u)) of
        Inl e \<Rightarrow> (Inl e, c)
      | Inr query \<Rightarrow> execute eng query c)"

definition active_version_query :: "upgrader \<Rightarrow> string" where
  "active_version_query u = ''SELECT MAX(id) FROM '' @ get_table u"

text \<open>The bare \<^verbatim>\<open>except:\<close> turns every exception of the query into \<open>-1\<close>.\<close>

definition get_active_version :: "'d engine \<Rightarrow> upgrader \<Rightarrow> 'd connection \<Rightarrow> int \<times> 'd connection" where
  "get_active_version eng u c =
     (case execute eng (active_version_query u) c of
        (Inl _, c') \<Rightarrow> (- 1, c')
      | (Inr _, c') \<Rightarrow>
          (case fetched c' of
             Some version \<Rightarrow> (version, c')
           | None \<Rightarrow> (0, c')))"

subsection \<open>The driver\<close>

text \<open>
  One pass of the \<^verbatim>\<open>for\<close> loop's body for each element of the range, in order; the
  first exception leaves the loop with the handle as it is at that moment.
\<close>

fun upgrade_loop ::
  "'d engine \<Rightarrow> filesystem \<Rightarrow> upgrader \<Rightarrow> int list \<Rightarrow> 'd connection
     \<Rightarrow> (py_error + unit) \<times> 'd connection" where
  "upgrade_loop eng fs u [] c = (Inr (), c)"
| "upgrade_loop eng fs u (i # rest) c =
     (let version = i + 1 in
      case load_upgrade fs u version of
        Inl e \<Rightarrow> (Inl e, c)
      | Inr upgrade \<Rightarrow>
          (case apply_upgrade eng upgrade c of
             (Inl e, c1) \<Rightarrow> (Inl e, c1)
           | (Inr _, c1) \<Rightarrow>
               (case create_version_record eng u version c1 of
                  (Inl e, c2) \<Rightarrow> (Inl e, c2)
                | (Inr _, c2) \<Rightarrow>
                    (let c3 = commit c2 in
                     if rowcount c3 \<noteq> 1
                     then (Inl (Exception ''could not record the upgrade''), c3)
                     else upgrade_loop eng fs u rest c3))))"

text \<open>
  The result is the exception that leaves \<^verbatim>\<open>perform_upgrade\<close>, or the returned status,
  with the handle afterwards. \<^verbatim>\<open>xrange(a, b)\<close> is the list \<open>[a..b - 1]\<close>.
\<close>

definition perform_upgrade ::
  "'d engine \<Rightarrow> filesystem \<Rightarrow> upgrader \<Rightarrow> 'd connection \<Rightarrow> (py_error + int) \<times> 'd connection" where
  "perform_upgrade eng fs u c =
     (case get_active_version eng u c of
        (active_version, c1) \<Rightarrow>
          (case get_latest_upgrade_version fs u of
             Inl e \<Rightarrow> (Inl e, c1)
           | Inr upgrade_version \<Rightarrow>
               (case (if active_version = - 1
                      then (case create_version_table eng u c1 of
                              (Inl e, c2) \<Rightarrow> (Inl e, c2)
                            | (Inr _, c2) \<Rightarrow> (Inr 0, c2))
                      else (Inr active_version, c1)) of
                  (Inl e, c2) \<Rightarrow> (Inl e, c2)
                | (Inr active_version, c2) \<Rightarrow>
                    (if active_version - upgrade_version = 0 then (Inr 0, c2)
                     else (case upgrade_loop eng fs u [active_version..upgrade_version - 1] c2 of
                             (Inl e, c3) \<Rightarrow> (Inr 1, rollback c3)
                           | (Inr _, c3) \<Rightarrow> (Inr 0, c3))))))"

text \<open>
  The calls a version makes on the handle when it goes through: its statements in the
  order they were loaded, the insert of its changelog record, the commit.
\<close>

definition version_calls :: "filesystem \<Rightarrow> upgrader \<Rightarrow> int \<Rightarrow> call list" where
  "version_calls fs u version =
     (case load_upgrade fs u version of
        Inl _ \<Rightarrow> []
      | Inr upgrade \<Rightarrow>
          map (\<lambda>upgrade_tuple. Execute (snd upgrade_tuple)) upgrade @
          [Execute (version_record_query u version), Commit])"

section \<open>Fixtures\<close>

text \<open>
  A stand-in for the in-memory sqlite3 database of src/test.py, to run the upgrader on
  concrete inputs. It keeps the ids of the bookkeeping table (\<open>None\<close> while the table does
  not exist) and the script statements that took effect. It understands the three statements
  the upgrader issues for the table \<^verbatim>\<open>schema_changelog\<close>; of the scripts it knows one
  that fails and one that installs a \<^verbatim>\<open>BEFORE INSERT\<close> trigger on the bookkeeping table whose
  body is \<^verbatim>\<open>SELECT RAISE(IGNORE)\<close>, after which an insert there is skipped and affects no
  row; every other script takes effect and is recorded.
\<close>

record store =
  changelog :: "int list option"
  statements :: "string list"
  ignoring :: bool

definition insert_head :: string where
  "insert_head = ''INSERT INTO schema_changelog (id) VALUES (''"

definition trigger_script :: string where
  "trigger_script =
     ''CREATE TRIGGER skip BEFORE INSERT ON schema_changelog BEGIN SELECT RAISE(IGNORE); END''"

definition failing_script :: string where
  "failing_script = ''INSERT INTO missing VALUES (1)''"

text \<open>The sqlite3 template with the default table name filled in.\<close>

definition sqlite3_create :: string where
  "sqlite3_create =
     [CHR 0x0A] @ ''CREATE TABLE schema_changelog ('' @
     [CHR 0x0A] @ ''    id int,'' @
     [CHR 0x0A] @ ''    applied text default datetime'' @
     [CHR 0x0A] @ '')''"

definition memory_db :: "store engine" where
  "memory_db q s =
     (if q = ''SELECT MAX(id) FROM schema_changelog'' then
        (case changelog s of
           None \<Rightarrow> Inl (''no such table: schema_changelog'', s)
         | Some ids \<Rightarrow> Inr (s, (if ids = [] then None else Some (fold max ids (hd ids))), - 1))
      else if q = sqlite3_create then
        (case changelog s of
           None \<Rightarrow> Inr (s\<lparr>changelog := Some []\<rparr>, None, - 1)
         | Some _ \<Rightarrow> Inl (''table schema_changelog already exists'', s))
      else if take (length insert_head) q = insert_head then
        (case (changelog s, py_int (butlast (drop (length insert_head) q))) of
           (Some ids, Inr v) \<Rightarrow>
             (if ignoring s then Inr (s, None, 0)
              else Inr (s\<lparr>changelog := Some (ids @ [v])\<rparr>, None, 1))
         | _ \<Rightarrow> Inl (''no such table: schema_changelog'', s))
      else if q = trigger_script then
        Inr (s\<lparr>statements := statements s @ [q], ignoring := True\<rparr>, None, - 1)
      else if q = failing_script then Inl (''no such table: missing'', s)
      else Inr (s\<lparr>statements := statements s @ [q]\<rparr>, None, - 1))"

text \<open>A new handle on a database: nothing pending, nothing fetched, no call made.\<close>

definition connect :: "'d \<Rightarrow> 'd connection" where
  "connect s = \<lparr>committed = s, working = s, fetched = None, rowcount = - 1, calls = []\<rparr>"

definition recorded :: "int list option \<Rightarrow> store" where
  "recorded ids = \<lparr>changelog = ids, statements = [], ignoring = False\<rparr>"

definition sqlite_upgrader :: upgrader where
  "sqlite_upgrader = \<lparr>directory = ''up'', table = (TABLE_NAME, sqlite3_structure)\<rparr>"

text \<open>The text of a file whose lines are the given ones.\<close>

definition text_of :: "string list \<Rightarrow> string" where
  "text_of ls = concat (map (\<lambda>l. l @ [CHR 0x0A]) ls)"

definition fs_none :: filesystem where
  "fs_none = map_of [(''up'', Dir [])]"

definition fs_basic :: filesystem where
  "fs_basic = map_of
     [(''up'', Dir [''1'']),
      (''up/1'', Dir [''1-init.sql'']),
      (''up/1/1-init.sql'', File ''CREATE TABLE foo (id int)'')]"

text \<open>Version directories \<open>1\<close> to \<open>10\<close>, each with one numbered script.\<close>

definition version_entries :: "nat \<Rightarrow> (string \<times> node) list" where
  "version_entries k =
     [(''up/'' @ py_str (int k), Dir [''1-init.sql'']),
      (''up/'' @ py_str (int k) @ ''/1-init.sql'',
         File (''CREATE TABLE t'' @ py_str (int k) @ '' (id int)''))]"

definition fs_ten :: filesystem where
  "fs_ten = map_of
     ((''up'', Dir (map (\<lambda>k. py_str (int k)) [1..<11]))
      # concat (map version_entries [1..<11]))"

definition fs_numbered :: filesystem where
  "fs_numbered = map_of
     [(''up'', Dir [''1'']),
      (''up/1'', Dir [''10-create.sql'', ''2-seed.sql'']),
      (''up/1/10-create.sql'', File ''CREATE INDEX i ON t (id)''),
      (''up/1/2-seed.sql'', File ''CREATE TABLE t (id int)'')]"

definition fs_trigger :: filesystem where
  "fs_trigger = map_of
     [(''up'', Dir [''1'']),
      (''up/1'', Dir [''1-table.sql'', ''2-trigger.sql'']),
      (''up/1/1-table.sql'', File ''CREATE TABLE t (id int)''),
      (''up/1/2-trigger.sql'', File trigger_script)]"

definition fs_three :: filesystem where
  "fs_three = map_of
     [(''up'', Dir [''1'', ''2'', ''3'']),
      (''up/1'', Dir [''1-a.sql'']),
      (''up/1/1-a.sql'', File ''CREATE TABLE a (id int)''),
      (''up/2'', Dir [''1-b.sql'']),
      (''up/2/1-b.sql'', File ''CREATE TABLE b (id int)''),
      (''up/3'', Dir [''1-c.sql'', ''2-d.sql'']),
      (''up/3/1-c.sql'', File ''CREATE TABLE c (id int)''),
      (''up/3/2-d.sql'', File failing_script)]"

definition fs_lost_script :: filesystem where
  "fs_lost_script = map_of
     [(''up'', Dir [''1'']),
      (''up/1'', Dir [''_manifest'', ''b.sql'']),
      (''up/1/_manifest'', File (text_of [''a'', ''b''])),
      (''up/1/b.sql'', File ''CREATE TABLE b (id int)'')]"

definition fs_locked_script :: filesystem where
  "fs_locked_script = map_of
     [(''up'', Dir [''1'']),
      (''up/1'', Dir [''_manifest'', ''a.sql'', ''b.sql'']),
      (''up/1/_manifest'', File (text_of [''a'', ''b''])),
      (''up/1/a.sql'', Broken 13),
      (''up/1/b.sql'', File ''CREATE TABLE b (id int)'')]"

definition fs_zero_prefix :: filesystem where
  "fs_zero_prefix = map_of
     [(''up'', Dir [''1'']),
      (''up/1'', Dir [''0-init.sql'']),
      (''up/1/0-init.sql'', File ''CREATE TABLE foo (id int)'')]"

definition fs_manifest :: filesystem where
  "fs_manifest = map_of
     [(''up'', Dir [''1'']),
      (''up/1'', Dir [''_manifest'', ''a.sql'', ''b.sql'', ''c.sql'']),
      (''up/1/_manifest'', File (text_of [''b'', ''a  '', ''c''])),
      (''up/1/a.sql'', File ''CREATE TABLE a (id int)''),
      (''up/1/b.sql'', File ''CREATE TABLE b (id int)''),
      (''up/1/c.sql'', File ''CREATE TABLE c (id int)'')]"

definition fs_manifest_gap :: filesystem where
  "fs_manifest_gap = map_of
     [(''up'', Dir [''1'']),
      (''up/1'', Dir [''_manifest'', ''a.sql'', ''b.sql'']),
      (''up/1/_manifest'', File (text_of [''b'', ''a'', ''c''])),
      (''up/1/a.sql'', File ''CREATE TABLE a (id int)''),
      (''up/1/b.sql'', File ''CREATE TABLE b (id int)'')]"

section \<open>Properties\<close>

subsection \<open>The factory\<close>

lemma for_engine_sqlite3: "for_engine ''sqlite3'' ''up'' TABLE_NAME = Inr sqlite_upgrader"
  by code_simp

lemma for_engine_unknown:
  "for_engine ''oracle'' ''up'' TABLE_NAME = Inl (Exception ''unknown database requested oracle'')"
  by code_simp

subsection \<open>The handle\<close>

lemma execute_calls: "calls (snd (execute eng q c)) = calls c @ [Execute q]"
  by (simp add: execute_def split: sum.splits prod.splits)

lemma execute_committed: "committed (snd (execute eng q c)) = committed c"
  by (simp add: execute_def split: sum.splits prod.splits)

lemma apply_upgrade_committed: "committed (snd (apply_upgrade eng us c)) = committed c"
proof (induction us arbitrary: c)
  case Nil
  show ?case by simp
next
  case (Cons a us)
  show ?case
  proof (cases "execute eng (snd a) c")
    case (Pair r c')
    with Cons execute_committed [of eng "snd a" c] show ?thesis
      by (cases r) simp_all
  qed
qed

lemma get_active_version_handle:
  assumes "get_active_version eng u c = (v, c1)"
  shows "calls c1 = calls c @ [Execute (active_version_query u)]"
    and "committed c1 = committed c"
    and "v \<noteq> - 1 \<Longrightarrow> \<exists>r n. eng (active_version_query u) (working c) = Inr (working c1, r, n)"
  using assms
  by (auto simp: get_active_version_def execute_def split: sum.splits prod.splits option.splits)

subsection \<open>The active version\<close>

text \<open>
  C4. \<^verbatim>\<open>get_active_version\<close> returns \<open>-1\<close> whenever the \<^verbatim>\<open>SELECT MAX(id)\<close> query
  raises, whatever the error is; it returns \<open>0\<close> when the query succeeds and the maximum is
  null; otherwise it returns the integer the query gives as the maximum id.
\<close>

theorem get_active_version_cases:
  "(eng (active_version_query u) (working c) = Inl err \<longrightarrow>
      fst (get_active_version eng u c) = - 1) \<and>
   (eng (active_version_query u) (working c) = Inr (d, None, n) \<longrightarrow>
      fst (get_active_version eng u c) = 0) \<and>
   (eng (active_version_query u) (working c) = Inr (d, Some v, n) \<longrightarrow>
      fst (get_active_version eng u c) = v)"
  by (cases err) (simp add: get_active_version_def execute_def)

theorem get_active_version_cases_witness:
  "fst (get_active_version memory_db sqlite_upgrader (connect (recorded None))) = - 1 \<and>
   fst (get_active_version memory_db sqlite_upgrader (connect (recorded (Some [])))) = 0 \<and>
   fst (get_active_version memory_db sqlite_upgrader (connect (recorded (Some [1, 2])))) = 2"
proof -
  have absent:
    "memory_db (active_version_query sqlite_upgrader) (working (connect (recorded None)))
       = Inl (''no such table: schema_changelog'', recorded None)"
    by code_simp
  have empty:
    "memory_db (active_version_query sqlite_upgrader) (working (connect (recorded (Some []))))
       = Inr (recorded (Some []), None, - 1)"
    by code_simp
  have two:
    "memory_db (active_version_query sqlite_upgrader) (working (connect (recorded (Some [1, 2]))))
       = Inr (recorded (Some [1, 2]), Some 2, - 1)"
    by code_simp
  from absent
    get_active_version_cases [of memory_db sqlite_upgrader "connect (recorded None)"
      "(''no such table: schema_changelog'', recorded None)"]
  have "fst (get_active_version memory_db sqlite_upgrader (connect (recorded None))) = - 1"
    by blast
  moreover from empty
    get_active_version_cases [of memory_db sqlite_upgrader "connect (recorded (Some []))"
      _ "recorded (Some [])" "- 1"]
  have "fst (get_active_version memory_db sqlite_upgrader (connect (recorded (Some [])))) = 0"
    by blast
  moreover from two
    get_active_version_cases [of memory_db sqlite_upgrader "connect (recorded (Some [1, 2]))"
      _ "recorded (Some [1, 2])" "- 1" 2]
  have "fst (get_active_version memory_db sqlite_upgrader (connect (recorded (Some [1, 2])))) = 2"
    by blast
  ultimately show ?thesis by simp
qed

subsection \<open>Runs with nothing to apply\<close>

lemma perform_upgrade_nothing_pending:
  assumes "get_active_version eng u c = (v, c1)"
      and "v \<noteq> - 1"
      and "get_latest_upgrade_version fs u = Inr l"
      and "l \<le> v"
  shows "perform_upgrade eng fs u c = (Inr 0, c1)"
proof (cases "l = v")
  case True
  with assms show ?thesis by (simp add: perform_upgrade_def)
next
  case False
  with assms have "[v..l - 1] = []" by simp
  with assms False show ?thesis by (simp add: perform_upgrade_def)
qed

text \<open>
  C6. When the active version recorded in the database (so not the sentinel \<open>-1\<close>) equals
  the latest available version, \<^verbatim>\<open>perform_upgrade\<close> returns status \<open>0\<close>; the only call it
  makes on the handle is the version query, so no script is applied, nothing is inserted
  and nothing is committed: the committed data is untouched and the working data is what
  the query itself left.
\<close>

theorem perform_upgrade_up_to_date:
  assumes "get_active_version eng u c = (v, c1)"
      and "v \<noteq> - 1"
      and "get_latest_upgrade_version fs u = Inr v"
  shows "perform_upgrade eng fs u c = (Inr 0, c1) \<and>
         calls c1 = calls c @ [Execute (active_version_query u)] \<and>
         committed c1 = committed c \<and>
         (\<exists>r n. eng (active_version_query u) (working c) = Inr (working c1, r, n))"
  using perform_upgrade_nothing_pending [OF assms(1,2,3)]
    get_active_version_handle [OF assms(1)] assms(2)
  by simp

theorem perform_upgrade_up_to_date_witness:
  "perform_upgrade memory_db fs_basic sqlite_upgrader (connect (recorded (Some [1]))) =
     (Inr 0, (connect (recorded (Some [1])))
               \<lparr>fetched := Some 1, calls := [Execute ''SELECT MAX(id) FROM schema_changelog'']\<rparr>)"
proof -
  have active:
    "get_active_version memory_db sqlite_upgrader (connect (recorded (Some [1]))) =
       (1, (connect (recorded (Some [1])))
             \<lparr>fetched := Some 1, calls := [Execute ''SELECT MAX(id) FROM schema_changelog'']\<rparr>)"
    by code_simp
  have recorded: "(1::int) \<noteq> - 1" by simp
  have latest: "get_latest_upgrade_version fs_basic sqlite_upgrader = Inr 1"
    by code_simp
  from perform_upgrade_up_to_date [OF active recorded latest] show ?thesis by blast
qed

text \<open>A second run right after a successful first one only asks for the version.\<close>

lemma second_run_example:
  "(case perform_upgrade memory_db fs_basic sqlite_upgrader (connect (recorded None)) of
      (first, c1) \<Rightarrow>
        (case perform_upgrade memory_db fs_basic sqlite_upgrader c1 of
           (second, c2) \<Rightarrow>
             first = Inr 0 \<and> second = Inr 0 \<and>
             fst (get_active_version memory_db sqlite_upgrader c1) = 1 \<and>
             working c2 = working c1 \<and> committed c2 = committed c1 \<and>
             calls c2 = calls c1 @ [Execute ''SELECT MAX(id) FROM schema_changelog'']))"
  by code_simp

text \<open>
  C10. When the active version recorded in the database is strictly greater than the latest
  available version, the range of the upgrade loop is empty and \<^verbatim>\<open>perform_upgrade\<close>
  returns status \<open>0\<close>; the only call it makes on the handle is the version query, so no
  script is applied and no changelog record is inserted.
\<close>

theorem perform_upgrade_ahead_of_latest:
  assumes "get_active_version eng u c = (v, c1)"
      and "v \<noteq> - 1"
      and "get_latest_upgrade_version fs u = Inr l"
      and "l < v"
  shows "[v..l - 1] = [] \<and>
         perform_upgrade eng fs u c = (Inr 0, c1) \<and>
         calls c1 = calls c @ [Execute (active_version_query u)] \<and>
         committed c1 = committed c \<and>
         (\<exists>r n. eng (active_version_query u) (working c) = Inr (working c1, r, n))"
  using perform_upgrade_nothing_pending [OF assms(1,2,3)]
    get_active_version_handle [OF assms(1)] assms(2,4)
  by simp

theorem perform_upgrade_ahead_of_latest_witness:
  "perform_upgrade memory_db fs_none sqlite_upgrader (connect (recorded (Some [1, 2]))) =
     (Inr 0, (connect (recorded (Some [1, 2])))
               \<lparr>fetched := Some 2, calls := [Execute ''SELECT MAX(id) FROM schema_changelog'']\<rparr>)"
proof -
  have active:
    "get_active_version memory_db sqlite_upgrader (connect (recorded (Some [1, 2]))) =
       (2, (connect (recorded (Some [1, 2])))
             \<lparr>fetched := Some 2, calls := [Execute ''SELECT MAX(id) FROM schema_changelog'']\<rparr>)"
    by code_simp
  have recorded: "(2::int) \<noteq> - 1" by simp
  have latest: "get_latest_upgrade_version fs_none sqlite_upgrader = Inr 0"
    by code_simp
  have ahead: "(0::int) < 2" by simp
  from perform_upgrade_ahead_of_latest [OF active recorded latest ahead] show ?thesis by blast
qed

subsection \<open>The first run on a fresh database\<close>

lemma perform_upgrade_creates_table:
  assumes "eng (active_version_query u) (working c) = Inl (msg, d1)"
      and "format0 (snd (table u)) (fst (table u)) = Inr q"
      and "eng q d1 = Inr (d2, r, n)"
      and "get_latest_upgrade_version fs u = Inr l"
  shows "perform_upgrade eng fs u c =
           (let c2 = c\<lparr>working := d2, fetched := r, rowcount := n,
                       calls := calls c @ [Execute (active_version_query u), Execute q]\<rparr>
            in if l = 0 then (Inr 0, c2)
               else (case upgrade_loop eng fs u [0..l - 1] c2 of
                       (Inl e, c3) \<Rightarrow> (Inr 1, rollback c3)
                     | (Inr _, c3) \<Rightarrow> (Inr 0, c3)))"
  using assms
  by (simp add: perform_upgrade_def get_active_version_def create_version_table_def execute_def)

text \<open>
  C9. On a fresh database the version query raises, so \<^verbatim>\<open>get_active_version\<close> is \<open>-1\<close>.
  \<^verbatim>\<open>perform_upgrade\<close> does not fail on that. Once the latest version is known it executes
  the table-creation statement and goes on with active version \<open>0\<close>: whatever the upgrades
  directory holds, the run is the one that starts from version \<open>0\<close> on the handle with the
  new table, so with latest version \<open>l\<close> it works through the range from \<open>0\<close> to \<open>l - 1\<close>.
  When the upgrades directory is empty it returns status \<open>0\<close>, having made exactly two
  calls on the handle (the query and the creation), and, the new table being empty, a
  subsequent \<^verbatim>\<open>get_active_version\<close> on the handle returns \<open>0\<close>.
\<close>

theorem perform_upgrade_fresh_database:
  assumes "eng (active_version_query u) (working c) = Inl (msg, d1)"
      and "format0 (snd (table u)) (fst (table u)) = Inr q"
      and "eng q d1 = Inr (d2, r, n)"
      and "c2 = c\<lparr>working := d2, fetched := r, rowcount := n,
                    calls := calls c @ [Execute (active_version_query u), Execute q]\<rparr>"
  shows "fst (get_active_version eng u c) = - 1 \<and>
         perform_upgrade eng fs u c =
           (case get_latest_upgrade_version fs u of
              Inl e \<Rightarrow>
                (Inl e, c\<lparr>working := d1, calls := calls c @ [Execute (active_version_query u)]\<rparr>)
            | Inr l \<Rightarrow>
                (if l = 0 then (Inr 0, c2)
                 else (case upgrade_loop eng fs u [0..l - 1] c2 of
                         (Inl e, c3) \<Rightarrow> (Inr 1, rollback c3)
                       | (Inr _, c3) \<Rightarrow> (Inr 0, c3)))) \<and>
         (listdir fs (directory u) = Inr [] \<longrightarrow>
            perform_upgrade eng fs u c = (Inr 0, c2) \<and>
            (eng (active_version_query u) d2 = Inr (d3, None, n3) \<longrightarrow>
               fst (get_active_version eng u (snd (perform_upgrade eng fs u c))) = 0))"
proof -
  have before: "fst (get_active_version eng u c) = - 1"
    using assms(1) by (simp add: get_active_version_def execute_def)
  have run: "perform_upgrade eng fs u c =
           (case get_latest_upgrade_version fs u of
              Inl e \<Rightarrow>
                (Inl e, c\<lparr>working := d1, calls := calls c @ [Execute (active_version_query u)]\<rparr>)
            | Inr l \<Rightarrow>
                (if l = 0 then (Inr 0, c2)
                 else (case upgrade_loop eng fs u [0..l - 1] c2 of
                         (Inl e, c3) \<Rightarrow> (Inr 1, rollback c3)
                       | (Inr _, c3) \<Rightarrow> (Inr 0, c3))))"
  proof (cases "get_latest_upgrade_version fs u")
    case (Inl e)
    with assms(1) show ?thesis
      by (simp add: perform_upgrade_def get_active_version_def execute_def)
  next
    case (Inr l)
    from perform_upgrade_creates_table [OF assms(1,2,3) Inr] Inr assms(4)
    show ?thesis by (simp add: Let_def)
  qed
  have none: "perform_upgrade eng fs u c = (Inr 0, c2)"
    if "listdir fs (directory u) = Inr []"
  proof -
    from that have "get_latest_upgrade_version fs u = Inr 0"
      by (simp add: get_latest_upgrade_version_def get_available_upgrades_def)
    with run show ?thesis by simp
  qed
  have after: "fst (get_active_version eng u (snd (perform_upgrade eng fs u c))) = 0"
    if "listdir fs (directory u) = Inr []"
      and "eng (active_version_query u) d2 = Inr (d3, None, n3)"
    using that(2) assms(4) by (simp add: none [OF that(1)] get_active_version_def execute_def)
  from before run none after show ?thesis by blast
qed

theorem perform_upgrade_fresh_database_witness:
  "fst (get_active_version memory_db sqlite_upgrader (connect (recorded None))) = - 1 \<and>
   fst (perform_upgrade memory_db fs_none sqlite_upgrader (connect (recorded None))) = Inr 0 \<and>
   working (snd (perform_upgrade memory_db fs_none sqlite_upgrader (connect (recorded None))))
     = recorded (Some []) \<and>
   fst (get_active_version memory_db sqlite_upgrader
          (snd (perform_upgrade memory_db fs_none sqlite_upgrader (connect (recorded None))))) = 0 \<and>
   fst (perform_upgrade memory_db fs_basic sqlite_upgrader (connect (recorded None))) = Inr 0 \<and>
   calls (snd (perform_upgrade memory_db fs_basic sqlite_upgrader (connect (recorded None)))) =
     [Execute ''SELECT MAX(id) FROM schema_changelog'',
      Execute sqlite3_create,
      Execute ''CREATE TABLE foo (id int)'',
      Execute ''INSERT INTO schema_changelog (id) VALUES (1)'',
      Commit] \<and>
   changelog (committed (snd (perform_upgrade memory_db fs_basic sqlite_upgrader
                                (connect (recorded None))))) = Some [1]"
proof -
  have create:
    "format0 (snd (table sqlite_upgrader)) (fst (table sqlite_upgrader)) = Inr sqlite3_create"
    by code_simp
  have absent:
    "memory_db (active_version_query sqlite_upgrader) (working (connect (recorded None)))
       = Inl (''no such table: schema_changelog'', recorded None)"
    by code_simp
  have created: "memory_db sqlite3_create (recorded None) = Inr (recorded (Some []), None, - 1)"
    by code_simp
  have no_versions: "listdir fs_none (directory sqlite_upgrader) = Inr []"
    by code_simp
  have empty:
    "memory_db (active_version_query sqlite_upgrader) (recorded (Some []))
       = Inr (recorded (Some []), None, - 1)"
    by code_simp
  note run = perform_upgrade_fresh_database [OF absent create created refl]
  from run have before:
    "fst (get_active_version memory_db sqlite_upgrader (connect (recorded None))) = - 1"
    by blast
  from run [of fs_none] no_versions have result:
    "perform_upgrade memory_db fs_none sqlite_upgrader (connect (recorded None)) =
       (Inr 0, (connect (recorded None))
                 \<lparr>working := recorded (Some []), fetched := None, rowcount := - 1,
                    calls := calls (connect (recorded None)) @
                      [Execute (active_version_query sqlite_upgrader), Execute sqlite3_create]\<rparr>)"
    by blast
  from run [of fs_none "recorded (Some [])" "- 1"] no_versions empty have after:
    "fst (get_active_version memory_db sqlite_upgrader
            (snd (perform_upgrade memory_db fs_none sqlite_upgrader (connect (recorded None))))) = 0"
    by blast
  from result have status:
    "fst (perform_upgrade memory_db fs_none sqlite_upgrader (connect (recorded None))) = Inr 0"
    by simp
  from result have data:
    "working (snd (perform_upgrade memory_db fs_none sqlite_upgrader (connect (recorded None))))
       = recorded (Some [])"
    by simp
  from run [of fs_basic] have basic:
    "perform_upgrade memory_db fs_basic sqlite_upgrader (connect (recorded None)) =
       (case get_latest_upgrade_version fs_basic sqlite_upgrader of
          Inl e \<Rightarrow>
            (Inl e, (connect (recorded None))
                      \<lparr>working := recorded None,
                         calls := calls (connect (recorded None)) @
                           [Execute (active_version_query sqlite_upgrader)]\<rparr>)
        | Inr l \<Rightarrow>
            (if l = 0
             then (Inr 0, (connect (recorded None))
                 \<lparr>working := recorded (Some []), fetched := None, rowcount := - 1,
                    calls := calls (connect (recorded None)) @
                      [Execute (active_version_query sqlite_upgrader), Execute sqlite3_create]\<rparr>)
             else (case upgrade_loop memory_db fs_basic sqlite_upgrader [0..l - 1]
                     ((connect (recorded None))
                 \<lparr>working := recorded (Some []), fetched := None, rowcount := - 1,
                    calls := calls (connect (recorded None)) @
                      [Execute (active_version_query sqlite_upgrader), Execute sqlite3_create]\<rparr>) of
                     (Inl e, c3) \<Rightarrow> (Inr 1, rollback c3)
                   | (Inr _, c3) \<Rightarrow> (Inr 0, c3))))"
    by blast
  have applied:
    "fst (perform_upgrade memory_db fs_basic sqlite_upgrader (connect (recorded None))) = Inr 0 \<and>
     calls (snd (perform_upgrade memory_db fs_basic sqlite_upgrader (connect (recorded None)))) =
       [Execute ''SELECT MAX(id) FROM schema_changelog'',
        Execute sqlite3_create,
        Execute ''CREATE TABLE foo (id int)'',
        Execute ''INSERT INTO schema_changelog (id) VALUES (1)'',
        Commit] \<and>
     changelog (committed (snd (perform_upgrade memory_db fs_basic sqlite_upgrader
                                  (connect (recorded None))))) = Some [1]"
    unfolding basic by code_simp
  from before status data after applied show ?thesis by blast
qed

subsection \<open>Ordering keys of the directory scan\<close>

lemma length_str_split: "length (str_split sep s) = Suc (length (filter (\<lambda>x. x = sep) s))"
  by (induction s) (auto split: list.splits)

lemma str_split_nonempty: "str_split sep s \<noteq> []"
  by (induction s) (auto split: list.splits)

lemma hd_str_split: "hd (str_split sep s) = takeWhile (\<lambda>x. x \<noteq> sep) s"
  by (induction s) (auto simp: str_split_nonempty split: list.splits)

text \<open>
  What \<^verbatim>\<open>script_prefix\<close> computes: a name without a hyphen, or whose text before the
  first hyphen is not an integer literal, raises; every other name gets a truth value as
  its key, \<open>False\<close> when the integer is not positive.
\<close>

lemma script_prefix_eq:
  "script_prefix filename =
     (if CHR ''-'' \<in> set filename
      then (case py_int (takeWhile (\<lambda>x. x \<noteq> CHR ''-'') filename) of
              Inr n \<Rightarrow> Inr (0 < n)
            | Inl _ \<Rightarrow> Inl (Exception ''invalid prefix''))
      else Inl (Exception ''invalid prefix''))"
proof -
  have "(1 < length (str_split CHR ''-'' filename)) = (CHR ''-'' \<in> set filename)"
    by (simp add: length_str_split filter_empty_conv)
  then show ?thesis
    by (simp add: script_prefix_def hd_str_split Let_def)
qed

lemma sort_keys_all_true:
  "\<forall>x\<in>set xs. f x = Inr True \<Longrightarrow> sort_keys f xs = Inr (map (Pair True) xs)"
  by (induction xs) simp_all

lemma sort_key_same_key:
  "\<forall>p\<in>set ps. f p = k \<Longrightarrow> sort_key f ps = ps"
proof (induction ps)
  case Nil
  show ?case by simp
next
  case (Cons p ps)
  then have "sort_key f ps = ps" by simp
  moreover have "insort_key f p ps = p # ps"
    using Cons.prems by (cases ps) simp_all
  ultimately show ?case by simp
qed

text \<open>
  With every prefix positive all keys are \<open>True\<close>, and the stable sort leaves the
  entries in the order \<^verbatim>\<open>os.listdir\<close> gave them.
\<close>

lemma scripts_from_upgradedir_keeps_listing_order:
  assumes "listdir fs version_dir = Inr names"
      and "\<forall>x\<in>set names. script_prefix x = Inr True"
  shows "scripts_from_upgradedir fs version_dir =
           load_upgrade_components fs version_dir
             (map (\<lambda>x. slice_to x (rfind x CHR ''.'')) names)"
proof -
  have "sort_key fst (map (Pair True) names) = map (Pair True) names"
    by (rule sort_key_same_key [where k = True]) auto
  with assms sort_keys_all_true [OF assms(2)] show ?thesis
    by (simp add: scripts_from_upgradedir_def comp_def)
qed

text \<open>
  C2. The claim is that without a manifest the scripts are ordered by the numeric value of
  their prefix, so that \<^verbatim>\<open>2-seed\<close> is applied before \<^verbatim>\<open>10-create\<close>. The key that
  \<^verbatim>\<open>script_prefix\<close> returns is the comparison \<^verbatim>\<open>int(prefix) > 0\<close>, not the integer: both
  files get the key \<open>True\<close> and keep the order of the directory listing. For a listing
  that reports \<^verbatim>\<open>10-create.sql\<close> first, \<^verbatim>\<open>load_upgrade\<close> returns \<^verbatim>\<open>10-create\<close> before
  \<^verbatim>\<open>2-seed\<close>, and \<^verbatim>\<open>perform_upgrade\<close> executes them in that order.
\<close>

theorem numbered_scripts_keep_listing_order:
  "script_prefix ''10-create.sql'' = Inr True \<and>
   script_prefix ''2-seed.sql'' = Inr True \<and>
   load_upgrade fs_numbered sqlite_upgrader 1 =
     Inr [(''10-create'', ''CREATE INDEX i ON t (id)''),
          (''2-seed'', ''CREATE TABLE t (id int)'')] \<and>
   calls (snd (perform_upgrade memory_db fs_numbered sqlite_upgrader (connect (recorded (Some [])))))
     = [Execute ''SELECT MAX(id) FROM schema_changelog'',
        Execute ''CREATE INDEX i ON t (id)'',
        Execute ''CREATE TABLE t (id int)'',
        Execute ''INSERT INTO schema_changelog (id) VALUES (1)'',
        Commit]"
  by code_simp

text \<open>
  C7. The claim is that every filename whose token before the first hyphen is not a
  positive integer makes the directory scan fail with the invalid-prefix error. That
  holds for a name without a hyphen and for a token that is not an integer (see
  \<open>script_prefix_eq\<close>). For an integer that is not positive \<^verbatim>\<open>script_prefix\<close> returns
  \<open>False\<close> instead of raising: the version directory with the single file
  \<^verbatim>\<open>0-init.sql\<close> loads, and \<^verbatim>\<open>perform_upgrade\<close> applies it and returns status \<open>0\<close>.
\<close>

theorem zero_prefix_is_accepted:
  "script_prefix ''0-init.sql'' = Inr False \<and>
   load_upgrade fs_zero_prefix sqlite_upgrader 1 =
     Inr [(''0-init'', ''CREATE TABLE foo (id int)'')] \<and>
   (case perform_upgrade memory_db fs_zero_prefix sqlite_upgrader (connect (recorded (Some []))) of
      (status, c) \<Rightarrow>
        status = Inr 0 \<and>
        statements (committed c) = [''CREATE TABLE foo (id int)''] \<and>
        changelog (committed c) = Some [1])"
  by code_simp

subsection \<open>Manifests and script files\<close>

lemma load_upgrade_script_contents:
  "fs (path_join script_path (script_name @ SCRIPT_EXT)) = Some (File sql) \<Longrightarrow>
   load_upgrade_script fs script_path script_name = Inr sql"
  by (simp add: load_upgrade_script_def open_read_def)

lemma open_read_error: "open_read fs p = Inl e \<Longrightarrow> \<exists>n. e = IOError n"
  by (auto simp: open_read_def split: option.splits node.splits)

lemma load_upgrade_components_names:
  "load_upgrade_components fs p ls = Inr cs \<Longrightarrow> map fst cs = map rstrip ls"
  by (induction ls arbitrary: cs) (auto simp: Let_def split: sum.splits)

text \<open>
  When the manifest opens and every script it lists can be read, the scripts come in the
  order of the manifest's lines, each name with its trailing whitespace stripped.
\<close>

lemma load_upgrade_from_manifest:
  assumes "open_read fs (path_join (path_join (directory u) (py_str version)) FILE_MANIFEST) = Inr m"
      and "load_upgrade_components fs (path_join (directory u) (py_str version)) (file_lines m) = Inr cs"
  shows "load_upgrade fs u version = Inr cs \<and> map fst cs = map rstrip (file_lines m)"
  using assms load_upgrade_components_names [OF assms(2)]
  by (simp add: load_upgrade_def scripts_from_manifestfile_def)

lemma load_upgrade_manifest_unreadable:
  assumes "open_read fs (path_join (path_join (directory u) (py_str version)) FILE_MANIFEST) = Inl (IOError n)"
      and "n \<noteq> 2"
  shows "load_upgrade fs u version = Inl (Exception ''missing manifest file'')"
  using assms by (simp add: load_upgrade_def scripts_from_manifestfile_def)

lemma load_upgrade_manifest_absent:
  assumes "open_read fs (path_join (path_join (directory u) (py_str version)) FILE_MANIFEST) = Inl (IOError 2)"
  shows "load_upgrade fs u version =
           scripts_from_upgradedir fs (path_join (directory u) (py_str version))"
  using assms by (simp add: load_upgrade_def scripts_from_manifestfile_def)

lemma manifest_order_example:
  "load_upgrade fs_manifest sqlite_upgrader 1 =
     Inr [(''b'', ''CREATE TABLE b (id int)''),
          (''a'', ''CREATE TABLE a (id int)''),
          (''c'', ''CREATE TABLE c (id int)'')]"
  by code_simp

text \<open>
  C5. The claim is that a script file that cannot be read makes the load of its version
  fail with the script-read error, which is not turned into anything else.
  \<^verbatim>\<open>load_upgrade_script\<close> does return the contents of \<^verbatim>\<open><path>/<name>.sql\<close> and does
  raise the \<^verbatim>\<open>IOError\<close> of \<^verbatim>\<open>open\<close>. But when the name came from a manifest, that
  \<^verbatim>\<open>IOError\<close> is caught by the handler \<^verbatim>\<open>load_upgrade\<close> has for opening the manifest.
  A missing script (errno 2) starts the directory scan, which fails on the entry
  \<^verbatim>\<open>_manifest\<close> with the invalid-prefix error; a script that may not be read
  (errno 13) becomes the missing-manifest error.
\<close>

theorem unreadable_script_is_misreported:
  "load_upgrade_script fs_lost_script ''up/1'' ''a'' = Inl (IOError 2) \<and>
   load_upgrade fs_lost_script sqlite_upgrader 1 = Inl (Exception ''invalid prefix'') \<and>
   load_upgrade_script fs_locked_script ''up/1'' ''a'' = Inl (IOError 13) \<and>
   load_upgrade fs_locked_script sqlite_upgrader 1 = Inl (Exception ''missing manifest file'')"
  by code_simp

text \<open>
  C8. The claim is that with a manifest the scripts come in the manifest's order (which
  holds, see \<open>load_upgrade_from_manifest\<close>), that a manifest that cannot be opened for
  another reason than absence gives the missing-manifest error (which holds, see
  \<open>load_upgrade_manifest_unreadable\<close>), and that the directory scan is used only when
  opening the manifest fails with "not found". The last part fails: here the manifest
  opens and lists \<^verbatim>\<open>b\<close>, \<^verbatim>\<open>a\<close>, \<^verbatim>\<open>c\<close>, the file \<^verbatim>\<open>c.sql\<close> does not exist, and
  \<^verbatim>\<open>load_upgrade\<close> answers with the result of the directory scan.
\<close>

theorem directory_scan_despite_manifest:
  "open_read fs_manifest_gap (path_join ''up/1'' FILE_MANIFEST) = Inr (text_of [''b'', ''a'', ''c'']) \<and>
   scripts_from_manifestfile fs_manifest_gap ''up/1'' = Inl (IOError 2) \<and>
   load_upgrade fs_manifest_gap sqlite_upgrader 1 = scripts_from_upgradedir fs_manifest_gap ''up/1'' \<and>
   scripts_from_upgradedir fs_manifest_gap ''up/1'' = Inl (Exception ''invalid prefix'')"
  by code_simp

subsection \<open>Runs that apply versions\<close>

lemma apply_upgrade_calls:
  "apply_upgrade eng us c = (Inr x, c') \<Longrightarrow>
   calls c' = calls c @ map (\<lambda>upgrade_tuple. Execute (snd upgrade_tuple)) us"
proof (induction us arbitrary: c)
  case Nil
  then show ?case by simp
next
  case (Cons a us)
  obtain r c1 where step: "execute eng (snd a) c = (r, c1)"
    by (cases "execute eng (snd a) c")
  with Cons.prems obtain y where ok: "r = Inr y" and rest: "apply_upgrade eng us c1 = (Inr x, c')"
    by (cases r) simp_all
  from step execute_calls [of eng "snd a" c] have "calls c1 = calls c @ [Execute (snd a)]"
    by simp
  with Cons.IH [OF rest] show ?case by simp
qed

lemma upgrade_loop_calls:
  "upgrade_loop eng fs u vs c = (Inr x, c') \<Longrightarrow>
   calls c' = calls c @ concat (map (\<lambda>i. version_calls fs u (i + 1)) vs)"
proof (induction vs arbitrary: c)
  case Nil
  then show ?case by simp
next
  case (Cons i vs)
  from Cons.prems obtain upgrade where load: "load_upgrade fs u (i + 1) = Inr upgrade"
    by (cases "load_upgrade fs u (i + 1)") (simp_all add: Let_def)
  obtain r1 c1 where app: "apply_upgrade eng upgrade c = (r1, c1)"
    by (cases "apply_upgrade eng upgrade c")
  with Cons.prems load obtain y1 where r1: "r1 = Inr y1"
    by (cases r1) (simp_all add: Let_def)
  obtain r2 c2 where rec: "create_version_record eng u (i + 1) c1 = (r2, c2)"
    by (cases "create_version_record eng u (i + 1) c1")
  with Cons.prems load app r1 obtain y2 where r2: "r2 = Inr y2"
    by (cases r2) (simp_all add: Let_def)
  from Cons.prems load app r1 rec r2
  have rc: "rowcount (commit c2) = 1" and rest: "upgrade_loop eng fs u vs (commit c2) = (Inr x, c')"
    by (simp_all add: Let_def split: if_splits)
  from app r1 have "calls c1 = calls c @ map (\<lambda>upgrade_tuple. Execute (snd upgrade_tuple)) upgrade"
    by (simp add: apply_upgrade_calls)
  moreover from rec execute_calls [of eng "version_record_query u (i + 1)" c1]
  have "calls c2 = calls c1 @ [Execute (version_record_query u (i + 1))]"
    by (simp add: create_version_record_def)
  ultimately have "calls (commit c2) = calls c @ version_calls fs u (i + 1)"
    by (simp add: commit_def version_calls_def load)
  with Cons.IH [OF rest] show ?case by simp
qed

text \<open>
  A run that returns status \<open>0\<close> has gone through the versions of the range one by one,
  in increasing order and without a gap, each with one insert and one commit.
\<close>

lemma perform_upgrade_success_calls:
  assumes "get_active_version eng u c = (v, c1)"
      and "v \<noteq> - 1"
      and "get_latest_upgrade_version fs u = Inr l"
      and "perform_upgrade eng fs u c = (Inr 0, c')"
  shows "calls c' = calls c @ Execute (active_version_query u)
           # concat (map (\<lambda>i. version_calls fs u (i + 1)) [v..l - 1])"
proof (cases "l \<le> v")
  case True
  with assms perform_upgrade_nothing_pending [OF assms(1,2,3)] have "c' = c1" by simp
  moreover from True have "[v..l - 1] = []" by simp
  ultimately show ?thesis using get_active_version_handle(1) [OF assms(1)] by simp
next
  case False
  obtain r c3 where loop: "upgrade_loop eng fs u [v..l - 1] c1 = (r, c3)"
    by (cases "upgrade_loop eng fs u [v..l - 1] c1")
  with assms False obtain y where "r = Inr y" and "c' = c3"
    by (cases r) (simp_all add: perform_upgrade_def)
  with loop upgrade_loop_calls [of eng fs u "[v..l - 1]" c1 y c3]
    get_active_version_handle(1) [OF assms(1)]
  show ?thesis by simp
qed

subsection \<open>Failure while a version is applied\<close>

text \<open>
  A statement of the version raises: the loop ends before any commit of that version,
  and the rollback of \<^verbatim>\<open>perform_upgrade\<close> restores the data committed before it.
\<close>

lemma upgrade_loop_statement_failure:
  assumes "load_upgrade fs u (i + 1) = Inr upgrade"
      and "apply_upgrade eng upgrade c = (Inl e, c1)"
  shows "upgrade_loop eng fs u (i # rest) c = (Inl e, c1) \<and>
         working (rollback c1) = committed c \<and> committed (rollback c1) = committed c"
  using assms apply_upgrade_committed [of eng upgrade c]
  by (simp add: rollback_def)

text \<open>
  The insert of the changelog record reports a row count other than one: the commit has
  already been made when the row count is read, so the rollback restores the data as the
  version's statements and the insert left it.
\<close>

lemma upgrade_loop_record_not_persisted:
  assumes "load_upgrade fs u (i + 1) = Inr upgrade"
      and "apply_upgrade eng upgrade c = (Inr (), c1)"
      and "create_version_record eng u (i + 1) c1 = (Inr (), c2)"
      and "rowcount c2 \<noteq> 1"
  shows "upgrade_loop eng fs u (i # rest) c =
           (Inl (Exception ''could not record the upgrade''), commit c2) \<and>
         working (rollback (commit c2)) = working c2 \<and>
         committed (rollback (commit c2)) = working c2"
  using assms by (simp add: rollback_def commit_def)

lemma third_version_failure_example:
  "(case perform_upgrade memory_db fs_three sqlite_upgrader (connect (recorded (Some []))) of
      (status, c) \<Rightarrow>
        status = Inr 1 \<and>
        working c = committed c \<and>
        statements (committed c) = [''CREATE TABLE a (id int)'', ''CREATE TABLE b (id int)''] \<and>
        changelog (committed c) = Some [1, 2] \<and>
        fst (get_active_version memory_db sqlite_upgrader c) = 2)"
  by code_simp

text \<open>
  C3. The claim is that whenever a version fails, by a statement that raises or by the
  changelog insert not affecting exactly one row, the rollback undoes the version's
  statements and its record, and status \<open>1\<close> is returned. For a statement that raises this
  holds (\<open>upgrade_loop_statement_failure\<close>, \<open>third_version_failure_example\<close>). For the
  row count it does not: \<^verbatim>\<open>perform_upgrade\<close> commits before it reads \<^verbatim>\<open>rowcount\<close>.
  Here version \<open>1\<close> creates a table and installs a trigger that makes inserts into the
  bookkeeping table affect no row. The insert reports row count \<open>0\<close>, status \<open>1\<close> is
  returned, the rollback comes after the commit, and both statements of the failed version
  stay committed.
\<close>

theorem unrecorded_version_stays_committed:
  "(case perform_upgrade memory_db fs_trigger sqlite_upgrader (connect (recorded (Some []))) of
      (status, c) \<Rightarrow>
        status = Inr 1 \<and>
        rowcount c = 0 \<and>
        calls c =
          [Execute ''SELECT MAX(id) FROM schema_changelog'',
           Execute ''CREATE TABLE t (id int)'',
           Execute trigger_script,
           Execute ''INSERT INTO schema_changelog (id) VALUES (1)'',
           Commit, Rollback] \<and>
        statements (committed c) = [''CREATE TABLE t (id int)'', trigger_script] \<and>
        statements (working c) = [''CREATE TABLE t (id int)'', trigger_script] \<and>
        fst (get_active_version memory_db sqlite_upgrader c) = 0)"
  by code_simp

subsection \<open>The latest version\<close>

text \<open>
  C1. The claim is that with version directories \<open>1..N\<close> one successful run from active
  version \<open>0\<close> ends at version \<open>N\<close>, with the records \<open>1..N\<close>. \<^verbatim>\<open>get_available_upgrades\<close>
  sorts the directory names as strings, and \<^verbatim>\<open>get_latest_upgrade_version\<close> takes the last
  one: with the directories \<open>1\<close> to \<open>10\<close> that is \<open>9\<close>. The run from version \<open>0\<close> returns
  status \<open>0\<close> and leaves the records \<open>1\<close> to \<open>9\<close>; version \<open>10\<close> is not applied, and the
  active version afterwards is \<open>9\<close>.
\<close>

theorem ten_versions_stop_at_nine:
  "map_sum id (take 3) (get_available_upgrades fs_ten sqlite_upgrader) = Inr [''1'', ''10'', ''2''] \<and>
   map_sum id last (get_available_upgrades fs_ten sqlite_upgrader) = Inr ''9'' \<and>
   get_latest_upgrade_version fs_ten sqlite_upgrader = Inr 9 \<and>
   fst (get_active_version memory_db sqlite_upgrader (connect (recorded (Some [])))) = 0 \<and>
   (case perform_upgrade memory_db fs_ten sqlite_upgrader (connect (recorded (Some []))) of
      (status, c) \<Rightarrow>
        status = Inr 0 \<and>
        changelog (committed c) = Some [1, 2, 3, 4, 5, 6, 7, 8, 9] \<and>
        fst (get_active_version memory_db sqlite_upgrader c) = 9)"
  by code_simp

end
